theory Spec2Isabelle
  imports Complex_Main "HOL-Library.Sublist"
begin

section \<open>The store as the backend code sees it\<close>

text \<open>
  The backend talks to the relational store through the client that
  \<^verbatim>\<open>supabaseAdmin(c)\<close> builds. A query that is awaited without
  \<^verbatim>\<open>throwOnError()\<close> resolves to an object \<^verbatim>\<open>{ data, error }\<close>; both
  fields are nullable. With \<^verbatim>\<open>throwOnError()\<close> a non-null error is thrown
  instead. The store itself is a parameter of every function below: a record with one
  field per remote procedure or query the modelled code issues.
\<close>

datatype PostgrestError = PostgrestError (message: string)

record 'a response =
  data :: "'a option"
  error :: "PostgrestError option"

text \<open>What JavaScript code can throw here, and every call the code sends to the store.\<close>

datatype js_exception = Error string | TypeError | SyntaxError

datatype arg = AStr string | ANum int

datatype store_call =
    AuthGetUser "string option"
  | Rpc string "(string \<times> arg) list"
  | SelectSingle string string "(string \<times> arg) list"
  | Insert string
  | Upsert string
  | Update string

fun is_write :: "store_call \<Rightarrow> bool" where
  "is_write (Insert t) = True"
| "is_write (Upsert t) = True"
| "is_write (Update t) = True"
| "is_write (AuthGetUser t) = False"
| "is_write (Rpc f ps) = False"
| "is_write (SelectSingle t cols fs) = False"

text \<open>
  An awaited function yields either a value or a thrown exception, together with the
  store calls it issued, in order.
\<close>

type_synonym 'a io = "(js_exception + 'a) \<times> store_call list"

record PlanTotal =
  mau :: real
  bandwidth :: real
  storage :: real
  get :: real
  fail :: real
  install :: real
  uninstall :: real

record PlanUsage =
  total_percent :: real
  mau_percent :: real
  bandwidth_percent :: real
  storage_percent :: real

datatype User = User (user_uid: string)

datatype AuthData = AuthData (user: "User option")

datatype OwnerOrg = OwnerOrg (created_by: "string option")

record Bundle =
  bundle_id :: int
  bundle_app_id :: string
  owner_org :: "OwnerOrg option"

datatype BundleUrl = BundleUrl (url: string)

record store =
  auth_getUser :: "string option \<Rightarrow> AuthData response"
  has_app_right_userid :: "string \<Rightarrow> string \<Rightarrow> string \<Rightarrow> bool response"
  get_total_metrics :: "string \<Rightarrow> PlanTotal response"
  get_plan_usage_percent_detailed :: "string \<Rightarrow> PlanUsage response"
  get_current_plan_name_org :: "string \<Rightarrow> string response"
  is_good_plan_v5_org :: "string \<Rightarrow> bool response"
  is_onboarded_org :: "string \<Rightarrow> bool response"
  is_canceled_org :: "string \<Rightarrow> bool response"
  is_paying_org :: "string \<Rightarrow> bool response"
  is_trial_org :: "string \<Rightarrow> int response"
  app_versions_single :: "string \<Rightarrow> int \<Rightarrow> Bundle response"
  getBundleUrl :: "string \<Rightarrow> Bundle \<Rightarrow> BundleUrl option"

text \<open>JavaScript truthiness of an optional string: undefined, null and the empty string are falsy.\<close>

fun falsy_str :: "string option \<Rightarrow> bool" where
  "falsy_str None = True"
| "falsy_str (Some s) = (s = [])"

section \<open>Rights\<close>

text \<open>
  \<^verbatim>\<open>hasAppRight(c, appId, userid, right)\<close>: the returned value is \<^verbatim>\<open>false\<close> or
  the \<^verbatim>\<open>data\<close> field of the answer, which may be null (\<open>None\<close>).
\<close>

definition hasAppRight :: "store \<Rightarrow> string option \<Rightarrow> string \<Rightarrow> string \<Rightarrow> (bool option) io" where
  "hasAppRight c appId userid right =
     (case appId of
        None \<Rightarrow> (Inr (Some False), [])
      | Some a \<Rightarrow>
          if a = [] then (Inr (Some False), [])
          else
            let r = has_app_right_userid c a right userid;
                calls = [Rpc ''has_app_right_userid''
                           [(''appid'', AStr a), (''right'', AStr right), (''userid'', AStr userid)]]
            in (case error r of
                  Some e \<Rightarrow> (Inr (Some False), calls)
                | None \<Rightarrow> (Inr (data r), calls)))"

section \<open>Plan quota\<close>

definition zero_PlanTotal :: PlanTotal where
  "zero_PlanTotal =
     \<lparr>mau = 0, bandwidth = 0, storage = 0, get = 0, fail = 0, install = 0, uninstall = 0\<rparr>"

definition zero_PlanUsage :: PlanUsage where
  "zero_PlanUsage =
     \<lparr>total_percent = 0, mau_percent = 0, bandwidth_percent = 0, storage_percent = 0\<rparr>"

text \<open>
  \<^verbatim>\<open>getTotalStats\<close> and \<^verbatim>\<open>getPlanUsagePercent\<close> return \<^verbatim>\<open>data\<close> as it
  came (the declared type hides that it is nullable, so the result is an option here).
\<close>

definition getTotalStats :: "store \<Rightarrow> string option \<Rightarrow> (PlanTotal option) io" where
  "getTotalStats c orgId =
     (case orgId of
        None \<Rightarrow> (Inr (Some zero_PlanTotal), [])
      | Some org \<Rightarrow>
          if org = [] then (Inr (Some zero_PlanTotal), [])
          else
            let r = get_total_metrics c org;
                calls = [Rpc ''get_total_metrics'' [(''org_id'', AStr org)]]
            in (case error r of
                  Some e \<Rightarrow> (Inl (Error (message e)), calls)
                | None \<Rightarrow> (Inr (data r), calls)))"

definition getPlanUsagePercent :: "store \<Rightarrow> string option \<Rightarrow> (PlanUsage option) io" where
  "getPlanUsagePercent c orgId =
     (case orgId of
        None \<Rightarrow> (Inr (Some zero_PlanUsage), [])
      | Some org \<Rightarrow>
          if org = [] then (Inr (Some zero_PlanUsage), [])
          else
            let r = get_plan_usage_percent_detailed c org;
                calls = [Rpc ''get_plan_usage_percent_detailed'' [(''orgid'', AStr org)]]
            in (case error r of
                  Some e \<Rightarrow> (Inl (Error (message e)), calls)
                | None \<Rightarrow> (Inr (data r), calls)))"

definition DEFAUL_PLAN_NAME :: string where
  "DEFAUL_PLAN_NAME = ''Solo''"

definition getCurrentPlanNameOrg :: "store \<Rightarrow> string option \<Rightarrow> string io" where
  "getCurrentPlanNameOrg c orgId =
     (case orgId of
        None \<Rightarrow> (Inr DEFAUL_PLAN_NAME, [])
      | Some org \<Rightarrow>
          if org = [] then (Inr DEFAUL_PLAN_NAME, [])
          else
            let r = get_current_plan_name_org c org;
                calls = [Rpc ''get_current_plan_name_org'' [(''orgid'', AStr org)]]
            in (case error r of
                  Some e \<Rightarrow> (Inl (Error (message e)), calls)
                | None \<Rightarrow>
                    (case data r of
                       None \<Rightarrow> (Inr DEFAUL_PLAN_NAME, calls)
                     | Some n \<Rightarrow> (Inr (if n = [] then DEFAUL_PLAN_NAME else n), calls))))"

section \<open>Segments\<close>

text \<open>
  The numbers of the statistics objects are passed on as they come, with no arithmetic, and
  are reals here; the days of trial that are left are compared with 1 and 7, and are
  integers.
\<close>

text \<open>
  The billing-flag helpers \<^verbatim>\<open>isGoodPlanOrg\<close>, \<^verbatim>\<open>isOnboardedOrg\<close>,
  \<^verbatim>\<open>isCanceledOrg\<close>, \<^verbatim>\<open>isPayingOrg\<close> and \<^verbatim>\<open>isTrialOrg\<close> await their
  query with \<^verbatim>\<open>throwOnError()\<close> inside \<^verbatim>\<open>try\<close>; the \<^verbatim>\<open>catch\<close> logs and
  the function then returns \<^verbatim>\<open>false\<close> (or \<^verbatim>\<open>0\<close>).
\<close>

definition throwOnError :: "'a response \<Rightarrow> js_exception + 'a option" where
  "throwOnError r =
     (case error r of Some e \<Rightarrow> Inl (Error (message e)) | None \<Rightarrow> Inr (data r))"

text \<open>\<^verbatim>\<open>data || false\<close> and \<^verbatim>\<open>data || 0\<close>.\<close>

fun or_false :: "bool option \<Rightarrow> bool" where
  "or_false None = False"
| "or_false (Some b) = b"

fun or_zero :: "int option \<Rightarrow> int" where
  "or_zero None = 0"
| "or_zero (Some n) = n"

definition isGoodPlanOrg :: "store \<Rightarrow> string \<Rightarrow> bool \<times> store_call list" where
  "isGoodPlanOrg c orgId =
     (case throwOnError (is_good_plan_v5_org c orgId) of
        Inr d \<Rightarrow> or_false d
      | Inl e \<Rightarrow> False,
      [Rpc ''is_good_plan_v5_org'' [(''orgid'', AStr orgId)]])"

definition isOnboardedOrg :: "store \<Rightarrow> string \<Rightarrow> bool \<times> store_call list" where
  "isOnboardedOrg c orgId =
     (case throwOnError (is_onboarded_org c orgId) of
        Inr d \<Rightarrow> or_false d
      | Inl e \<Rightarrow> False,
      [Rpc ''is_onboarded_org'' [(''orgid'', AStr orgId)]])"

definition isCanceledOrg :: "store \<Rightarrow> string \<Rightarrow> bool \<times> store_call list" where
  "isCanceledOrg c orgId =
     (case throwOnError (is_canceled_org c orgId) of
        Inr d \<Rightarrow> or_false d
      | Inl e \<Rightarrow> False,
      [Rpc ''is_canceled_org'' [(''orgid'', AStr orgId)]])"

definition isPayingOrg :: "store \<Rightarrow> string \<Rightarrow> bool \<times> store_call list" where
  "isPayingOrg c orgId =
     (case throwOnError (is_paying_org c orgId) of
        Inr d \<Rightarrow> or_false d
      | Inl e \<Rightarrow> False,
      [Rpc ''is_paying_org'' [(''orgid'', AStr orgId)]])"

definition isTrialOrg :: "store \<Rightarrow> string \<Rightarrow> int \<times> store_call list" where
  "isTrialOrg c orgId =
     (case throwOnError (is_trial_org c orgId) of
        Inr d \<Rightarrow> or_zero d
      | Inl e \<Rightarrow> 0,
      [Rpc ''is_trial_org'' [(''orgid'', AStr orgId)]])"

text \<open>
  The object \<^verbatim>\<open>segmentsObj\<close>, with the fields of the literal that
  \<^verbatim>\<open>customerToSegmentOrg\<close> builds. Only \<^verbatim>\<open>plan\<close> holds a string:
  \<^verbatim>\<open>payingMonthly\<close> holds the result of a \<^verbatim>\<open>===\<close> comparison.
\<close>

record Segments =
  capgo :: bool
  onboarded :: bool
  trial :: bool
  trial7 :: bool
  trial1 :: bool
  trial0 :: bool
  paying :: bool
  payingMonthly :: bool
  plan :: string
  overuse :: bool
  canceled :: bool
  issueSegment :: bool

datatype seg_value = VBool bool | VStr string

text \<open>\<^verbatim>\<open>Object.entries(segmentsObj)\<close>: the own keys in insertion order.\<close>

definition entries :: "Segments \<Rightarrow> (string \<times> seg_value) list" where
  "entries s =
     [(''capgo'', VBool (capgo s)),
      (''onboarded'', VBool (onboarded s)),
      (''trial'', VBool (trial s)),
      (''trial7'', VBool (trial7 s)),
      (''trial1'', VBool (trial1 s)),
      (''trial0'', VBool (trial0 s)),
      (''paying'', VBool (paying s)),
      (''payingMonthly'', VBool (payingMonthly s)),
      (''plan'', VStr (plan s)),
      (''overuse'', VBool (overuse s)),
      (''canceled'', VBool (canceled s)),
      (''issueSegment'', VBool (issueSegment s))]"

record SegmentResult =
  segments :: "string list"
  deleteSegments :: "string list"

text \<open>The body of the \<^verbatim>\<open>forEach\<close> callback, run over the entries with both arrays as state.\<close>

fun processSegments_loop ::
  "(string \<times> seg_value) list \<Rightarrow> string list \<Rightarrow> string list \<Rightarrow> string list \<times> string list" where
  "processSegments_loop [] segs dels = (segs, dels)"
| "processSegments_loop ((key, VBool v) # es) segs dels =
     (if v then processSegments_loop es (segs @ [key]) dels
      else processSegments_loop es segs (dels @ [key]))"
| "processSegments_loop ((key, VStr v) # es) segs dels =
     (if v = [] then processSegments_loop es segs dels
      else processSegments_loop es (segs @ [key @ '':'' @ v]) dels)"

definition processSegments :: "Segments \<Rightarrow> SegmentResult" where
  "processSegments segmentsObj =
     (case processSegments_loop (entries segmentsObj) [] [] of
        (segs, dels) \<Rightarrow> \<lparr>segments = segs, deleteSegments = dels\<rparr>)"

text \<open>The two columns of a \<^verbatim>\<open>plans\<close> row that the code reads.\<close>

record Plan =
  name :: string
  price_m_id :: string

definition initial_segments :: "bool \<Rightarrow> bool \<Rightarrow> string \<Rightarrow> Plan option \<Rightarrow> Segments" where
  "initial_segments onb canc price_id p =
     \<lparr>capgo = True,
      onboarded = onb,
      trial = False,
      trial7 = False,
      trial1 = False,
      trial0 = False,
      paying = False,
      payingMonthly = (case p of None \<Rightarrow> False | Some row \<Rightarrow> price_m_id row = price_id),
      plan = (case p of None \<Rightarrow> [] | Some row \<Rightarrow> name row),
      overuse = False,
      canceled = canc,
      issueSegment = False\<rparr>"

text \<open>The branch chain of \<^verbatim>\<open>customerToSegmentOrg\<close> after the five flags are read.\<close>

definition classify ::
  "Segments \<Rightarrow> int \<Rightarrow> bool \<Rightarrow> bool \<Rightarrow> Plan option \<Rightarrow> Segments" where
  "classify segmentsObj trialDaysLeft isPaying canUseMore p =
     (if \<not> isPaying \<and> trialDaysLeft > 1 \<and> trialDaysLeft \<le> 7
        then segmentsObj\<lparr>trial := True, trial7 := True\<rparr>
      else if \<not> isPaying \<and> trialDaysLeft = 1
        then segmentsObj\<lparr>trial := True, trial1 := True\<rparr>
      else if \<not> isPaying \<and> \<not> canUseMore
        then segmentsObj\<lparr>trial := True, trial0 := True\<rparr>
      else if isPaying \<and> \<not> canUseMore \<and> p \<noteq> None
        then segmentsObj\<lparr>overuse := True, paying := True\<rparr>
      else if isPaying \<and> canUseMore \<and> p \<noteq> None
        then segmentsObj\<lparr>paying := True\<rparr>
      else segmentsObj\<lparr>issueSegment := True\<rparr>)"

definition customerToSegmentOrg ::
  "store \<Rightarrow> string \<Rightarrow> string \<Rightarrow> Plan option \<Rightarrow> SegmentResult \<times> store_call list" where
  "customerToSegmentOrg c orgId price_id p =
     (let (onb, t1) = isOnboardedOrg c orgId;
          (canc, t2) = isCanceledOrg c orgId;
          segmentsObj = initial_segments onb canc price_id p;
          (trialDaysLeft, t3) = isTrialOrg c orgId;
          (isPaying, t4) = isPayingOrg c orgId;
          (canUseMore, t5) = isGoodPlanOrg c orgId;
          calls = t1 @ t2 @ t3 @ t4 @ t5
      in if \<not> onboarded segmentsObj then (processSegments segmentsObj, calls)
         else (processSegments (classify segmentsObj trialDaysLeft isPaying canUseMore p), calls))"

text \<open>What one entry contributes to each array.\<close>

fun segment_tags :: "string \<times> seg_value \<Rightarrow> string list" where
  "segment_tags (key, VBool v) = (if v then [key] else [])"
| "segment_tags (key, VStr v) = (if v = [] then [] else [key @ '':'' @ v])"

fun delete_tags :: "string \<times> seg_value \<Rightarrow> string list" where
  "delete_tags (key, VBool v) = (if v then [] else [key])"
| "delete_tags (key, VStr v) = []"

section \<open>The download-link handler\<close>

text \<open>
  \<^verbatim>\<open>String.prototype.split\<close> with a string separator: the pieces between the
  occurrences of the separator, found from left to right; an empty separator gives the
  single characters.
\<close>

function split_from :: "string \<Rightarrow> string \<Rightarrow> string \<Rightarrow> string list" where
  "split_from sep piece [] = [piece]"
| "split_from sep piece (x # xs) =
     (if sep \<noteq> [] \<and> prefix sep (x # xs)
      then piece # split_from sep [] (drop (length sep) (x # xs))
      else split_from sep (piece @ [x]) xs)"
  by pat_completeness auto
termination
  by (relation "measure (\<lambda>(sep, piece, s). length s)") auto

definition split_js :: "string \<Rightarrow> string \<Rightarrow> string list" where
  "split_js s sep = (if sep = [] then map (\<lambda>x. [x]) s else split_from sep [] s)"

text \<open>Reading an array at an index: \<^verbatim>\<open>undefined\<close> out of range.\<close>

definition at_index :: "'a list \<Rightarrow> nat \<Rightarrow> 'a option" where
  "at_index xs i = (if i < length xs then Some (xs ! i) else None)"

text \<open>
  The interface \<^verbatim>\<open>DataDownload\<close>. The \<^verbatim>\<open>id\<close> is the integer key of a row of
  \<^verbatim>\<open>app_versions\<close>; a number that a double cannot hold exactly (beyond \<open>2^53\<close>)
  is outside the model.
\<close>

record DataDownload =
  app_id :: string
  storage_provider :: string
  user_id :: "string option"
  id_num :: int

text \<open>
  The body of a request: text that is not JSON, the JSON value \<^verbatim>\<open>null\<close>, or a JSON
  object with the fields that \<^verbatim>\<open>DataDownload\<close> declares. Other JSON values are
  outside the model. \<^verbatim>\<open>await c.req.json()\<close> throws on the first, and returns
  \<^verbatim>\<open>null\<close> or the object on the others.
\<close>

datatype raw_body = NotJson | JsonNull | JsonObject DataDownload

fun c_req_json :: "raw_body \<Rightarrow> js_exception + DataDownload option" where
  "c_req_json NotJson = Inl SyntaxError"
| "c_req_json JsonNull = Inr None"
| "c_req_json (JsonObject b) = Inr (Some b)"

text \<open>What the handler reads of a request: the body and the \<^verbatim>\<open>authorization\<close> header.\<close>

record Request =
  req_json :: raw_body
  authorization :: "string option"

datatype json_body =
    Status string
  | StatusApp string string
  | StatusError string string
  | UrlBody string

record http_response =
  payload :: json_body
  http_status :: nat

definition json :: "json_body \<Rightarrow> nat \<Rightarrow> http_response" where
  "json b n = \<lparr>payload = b, http_status = n\<rparr>"

text \<open>\<^verbatim>\<open>JSON.stringify\<close> of an error object: it has no enumerable property of its own.\<close>

definition JSON_stringify :: "js_exception \<Rightarrow> string" where
  "JSON_stringify e = ''{}''"

definition no_access :: string where
  "no_access = ''You can'' @ [CHR 0x27] @ ''t access this app''"

text \<open>
  The body of the \<^verbatim>\<open>try\<close> block of the function given to \<^verbatim>\<open>app.post\<close>. The
  statements that can throw are the read of the body, the property access
  \<^verbatim>\<open>body.app_id\<close> in the arguments of \<^verbatim>\<open>hasAppRight\<close>, which throws a
  TypeError when the body is \<^verbatim>\<open>null\<close>, and the property access
  \<^verbatim>\<open>(bundle?.owner_org as any).created_by\<close>, which throws a TypeError when
  \<^verbatim>\<open>bundle\<close> is null or its \<^verbatim>\<open>owner_org\<close> is null. The middleware
  \<^verbatim>\<open>middlewareAuth\<close>, which runs before this function, and the URL signer
  \<^verbatim>\<open>getBundleUrl\<close> are defined in other modules: the first is outside the model, the
  second is a field of the store record and is given the owner and the bundle. Writing to
  the console is left out.
\<close>

definition download_link_try :: "store \<Rightarrow> Request \<Rightarrow> http_response io" where
  "download_link_try c req =
     (case c_req_json (req_json req) of
        Inl e \<Rightarrow> (Inl e, [])
      | Inr parsed \<Rightarrow>
     (case authorization req of
        None \<Rightarrow> (Inr (json (Status ''Cannot find authorization'') 400), [])
      | Some hdr \<Rightarrow>
          if hdr = [] then (Inr (json (Status ''Cannot find authorization'') 400), [])
          else
            let token = at_index (split_js hdr ''Bearer '') 1;
                r = auth_getUser c token;
                t1 = [AuthGetUser token];
                not_authorize = (Inr (json (Status ''not authorize'') 400), t1)
            in
     (case error r of
        Some e \<Rightarrow> not_authorize
      | None \<Rightarrow>
     (case data r of
        None \<Rightarrow> not_authorize
      | Some auth \<Rightarrow>
     (case user auth of
        None \<Rightarrow> not_authorize
      | Some u \<Rightarrow>
          let userId = user_uid u in
     (case parsed of
        None \<Rightarrow> (Inl TypeError, t1)
      | Some body \<Rightarrow>
     (case hasAppRight c (Some (app_id body)) userId ''read'' of
        (Inl e, t2) \<Rightarrow> (Inl e, t1 @ t2)
      | (Inr ok, t2) \<Rightarrow>
          if \<not> or_false ok
          then (Inr (json (StatusApp no_access (app_id body)) 400), t1 @ t2)
          else
            let q = app_versions_single c (app_id body) (id_num body);
                t3 = [SelectSingle ''app_versions'' ''*, owner_org ( created_by )''
                        [(''app_id'', AStr (app_id body)), (''id'', ANum (id_num body))]];
                calls = t1 @ t2 @ t3
            in
     (case data q of
        None \<Rightarrow> (Inl TypeError, calls)
      | Some bundle \<Rightarrow>
     (case owner_org bundle of
        None \<Rightarrow> (Inl TypeError, calls)
      | Some owner \<Rightarrow>
          let ownerOrg = created_by owner in
     (case error q of
        Some e \<Rightarrow> (Inr (json (Status ''Error unknow'') 500), calls)
      | None \<Rightarrow>
     (case ownerOrg of
        None \<Rightarrow> (Inr (json (Status ''Error unknow'') 500), calls)
      | Some org \<Rightarrow>
          if org = [] then (Inr (json (Status ''Error unknow'') 500), calls)
          else
     (case getBundleUrl c org bundle of
        None \<Rightarrow> (Inr (json (Status ''Error unknow'') 500), calls)
      | Some d \<Rightarrow> (Inr (json (UrlBody (url d)) 200), calls)))))))))))))"

text \<open>The handler: the \<^verbatim>\<open>catch\<close> turns whatever was thrown into a 500 answer.\<close>

definition download_link :: "store \<Rightarrow> Request \<Rightarrow> http_response \<times> store_call list" where
  "download_link c req =
     (case download_link_try c req of
        (Inr res, calls) \<Rightarrow> (res, calls)
      | (Inl e, calls) \<Rightarrow>
          (json (StatusError ''Cannot get download link'' (JSON_stringify e)) 500, calls))"

section \<open>Concrete stores and requests\<close>

text \<open>
  A store in which everything succeeds: token \<open>tok\<close> belongs to user \<open>u1\<close>, who may read
  app \<open>app123\<close>; bundle 7 of that app exists and its owning organization was created by
  \<open>owner1\<close>; bundle 9 exists with no owning organization; no other bundle exists; the
  organization is onboarded, paying, and over its plan.
\<close>

definition demo_store :: store where
  "demo_store =
     \<lparr>auth_getUser = (\<lambda>t. if t = Some ''tok''
          then \<lparr>data = Some (AuthData (Some (User ''u1''))), error = None\<rparr>
          else \<lparr>data = Some (AuthData None), error = Some (PostgrestError ''invalid JWT'')\<rparr>),
      has_app_right_userid =
        (\<lambda>a r u. \<lparr>data = Some (a = ''app123'' \<and> u = ''u1''), error = None\<rparr>),
      get_total_metrics = (\<lambda>org.
        \<lparr>data = Some \<lparr>mau = 12, bandwidth = 3, storage = 5, get = 40, fail = 1,
                        install = 6, uninstall = 2\<rparr>,
         error = None\<rparr>),
      get_plan_usage_percent_detailed = (\<lambda>org.
        \<lparr>data = Some \<lparr>total_percent = 50, mau_percent = 50, bandwidth_percent = 10,
                        storage_percent = 20\<rparr>,
         error = None\<rparr>),
      get_current_plan_name_org = (\<lambda>org.
        if org = ''org1'' then \<lparr>data = Some ''Maker'', error = None\<rparr>
        else \<lparr>data = None, error = None\<rparr>),
      is_good_plan_v5_org = (\<lambda>org. \<lparr>data = Some False, error = None\<rparr>),
      is_onboarded_org = (\<lambda>org. \<lparr>data = Some True, error = None\<rparr>),
      is_canceled_org = (\<lambda>org. \<lparr>data = Some False, error = None\<rparr>),
      is_paying_org = (\<lambda>org. \<lparr>data = Some True, error = None\<rparr>),
      is_trial_org = (\<lambda>org. \<lparr>data = Some 0, error = None\<rparr>),
      app_versions_single = (\<lambda>a i. if a = ''app123'' \<and> i = 7
          then \<lparr>data = Some \<lparr>bundle_id = 7, bundle_app_id = ''app123'',
                               owner_org = Some (OwnerOrg (Some ''owner1''))\<rparr>,
                error = None\<rparr>
          else if a = ''app123'' \<and> i = 9
          then \<lparr>data = Some \<lparr>bundle_id = 9, bundle_app_id = ''app123'', owner_org = None\<rparr>,
                error = None\<rparr>
          else \<lparr>data = None, error = Some (PostgrestError ''no rows'')\<rparr>),
      getBundleUrl = (\<lambda>org b. Some (BundleUrl ''https://signed.example/b''))\<rparr>"

text \<open>The same store with every remote procedure of the rights and quota paths failing.\<close>

definition down_store :: store where
  "down_store =
     demo_store
       \<lparr>has_app_right_userid :=
          (\<lambda>a r u. \<lparr>data = None, error = Some (PostgrestError ''boom'')\<rparr>),
        get_total_metrics := (\<lambda>org. \<lparr>data = None, error = Some (PostgrestError ''boom'')\<rparr>),
        get_plan_usage_percent_detailed :=
          (\<lambda>org. \<lparr>data = None, error = Some (PostgrestError ''boom'')\<rparr>),
        get_current_plan_name_org :=
          (\<lambda>org. \<lparr>data = None, error = Some (PostgrestError ''boom'')\<rparr>)\<rparr>"

definition demo_body :: DataDownload where
  "demo_body = \<lparr>app_id = ''app123'', storage_provider = ''r2'', user_id = None, id_num = 7\<rparr>"

definition demo_request :: Request where
  "demo_request = \<lparr>req_json = JsonObject demo_body, authorization = Some ''Bearer tok''\<rparr>"

definition missing_bundle_request :: Request where
  "missing_bundle_request = demo_request\<lparr>req_json := JsonObject (demo_body\<lparr>id_num := 8\<rparr>)\<rparr>"

definition orphan_bundle_request :: Request where
  "orphan_bundle_request = demo_request\<lparr>req_json := JsonObject (demo_body\<lparr>id_num := 9\<rparr>)\<rparr>"

definition malformed_request :: Request where
  "malformed_request = \<lparr>req_json = NotJson, authorization = Some ''Bearer bad''\<rparr>"

definition null_body_request :: Request where
  "null_body_request = \<lparr>req_json = JsonNull, authorization = Some ''Bearer tok''\<rparr>"

definition no_header_request :: Request where
  "no_header_request = demo_request\<lparr>authorization := None\<rparr>"

definition bad_token_request :: Request where
  "bad_token_request = demo_request\<lparr>authorization := Some ''Bearer bad''\<rparr>"

definition no_right_request :: Request where
  "no_right_request =
     demo_request\<lparr>req_json := JsonObject (demo_body\<lparr>app_id := ''app9''\<rparr>)\<rparr>"

definition demo_plan :: Plan where
  "demo_plan = \<lparr>name = ''Maker'', price_m_id = ''price_1''\<rparr>"

definition demo_segments :: Segments where
  "demo_segments = initial_segments True False ''price_1'' (Some demo_plan)"

section \<open>Rights: fail-closed\<close>

text \<open>
  C5. \<^verbatim>\<open>hasAppRight\<close> is fail-closed. Without an app id (undefined, or the empty
  string) it returns \<^verbatim>\<open>false\<close> and sends nothing to the store; when the rights lookup
  reports an error it returns \<^verbatim>\<open>false\<close>; in every case it returns a value and throws
  nothing; and what it sends to the store is at most the one call of the remote procedure
  \<^verbatim>\<open>has_app_right_userid\<close>, never an insert, upsert or update.
\<close>

theorem hasAppRight_fail_closed:
  "(falsy_str appId \<longrightarrow> hasAppRight c appId userid right = (Inr (Some False), []))
   \<and> (error (has_app_right_userid c a right userid) \<noteq> None \<longrightarrow>
        fst (hasAppRight c (Some a) userid right) = Inr (Some False))
   \<and> (\<exists>v. fst (hasAppRight c appId userid right) = Inr v)
   \<and> list_all (\<lambda>x. \<not> is_write x) (snd (hasAppRight c appId userid right))
   \<and> length (snd (hasAppRight c appId userid right)) \<le> 1"
  by (cases appId) (auto simp: hasAppRight_def Let_def split: option.splits)

theorem hasAppRight_fail_closed_witness:
  "falsy_str None
   \<and> hasAppRight down_store None ''u1'' ''read'' = (Inr (Some False), [])
   \<and> error (has_app_right_userid down_store ''app123'' ''read'' ''u1'') \<noteq> None
   \<and> fst (hasAppRight down_store (Some ''app123'') ''u1'' ''read'') = Inr (Some False)"
  using hasAppRight_fail_closed [of None down_store "''u1''" "''read''" "''app123''"]
  by (simp add: down_store_def)

section \<open>Plan quota: the absent organization and the failing store\<close>

text \<open>
  C7. Called without an org id, \<^verbatim>\<open>getTotalStats\<close> returns the object with all seven
  counters 0 and \<^verbatim>\<open>getPlanUsagePercent\<close> the object with all four percentages 0;
  neither throws and neither sends a call to the store (the list of calls is empty). The
  empty string, being falsy, is treated like the absent id.
\<close>

theorem absent_org_zero_objects:
  "getTotalStats c None =
     (Inr (Some \<lparr>mau = 0, bandwidth = 0, storage = 0, get = 0, fail = 0, install = 0,
                  uninstall = 0\<rparr>), [])
   \<and> getPlanUsagePercent c None =
     (Inr (Some \<lparr>total_percent = 0, mau_percent = 0, bandwidth_percent = 0,
                  storage_percent = 0\<rparr>), [])
   \<and> getTotalStats c (Some []) = getTotalStats c None
   \<and> getPlanUsagePercent c (Some []) = getPlanUsagePercent c None"
  by (simp add: getTotalStats_def getPlanUsagePercent_def zero_PlanTotal_def zero_PlanUsage_def)

text \<open>
  C2, as the specification states it, asks for the all-zero object when the store call
  fails. With the failing store, \<^verbatim>\<open>getTotalStats\<close> and
  \<^verbatim>\<open>getPlanUsagePercent\<close> throw instead.
\<close>

theorem quota_store_failure_counterexample:
  "error (get_total_metrics down_store ''org1'') = Some (PostgrestError ''boom'')
   \<and> fst (getTotalStats down_store (Some ''org1'')) = Inl (Error ''boom'')
   \<and> fst (getTotalStats down_store (Some ''org1'')) \<noteq> Inr (Some zero_PlanTotal)
   \<and> error (get_plan_usage_percent_detailed down_store ''org1'') = Some (PostgrestError ''boom'')
   \<and> fst (getPlanUsagePercent down_store (Some ''org1'')) = Inl (Error ''boom'')
   \<and> fst (getPlanUsagePercent down_store (Some ''org1'')) \<noteq> Inr (Some zero_PlanUsage)"
  by (simp add: getTotalStats_def getPlanUsagePercent_def down_store_def)

text \<open>
  C2, amended. For a present (non-empty) org id, when the store call reports an error,
  \<^verbatim>\<open>getTotalStats\<close> and \<^verbatim>\<open>getPlanUsagePercent\<close> each throw an Error that carries
  the message of the store's error, after the one call to the store.
\<close>

theorem quota_store_failure_raises:
  assumes "org \<noteq> []"
  shows "(error (get_total_metrics c org) = Some e \<longrightarrow>
            getTotalStats c (Some org) =
              (Inl (Error (message e)), [Rpc ''get_total_metrics'' [(''org_id'', AStr org)]]))
       \<and> (error (get_plan_usage_percent_detailed c org) = Some e' \<longrightarrow>
            getPlanUsagePercent c (Some org) =
              (Inl (Error (message e')),
               [Rpc ''get_plan_usage_percent_detailed'' [(''orgid'', AStr org)]]))"
  using assms by (simp add: getTotalStats_def getPlanUsagePercent_def)

theorem quota_store_failure_raises_witness:
  "''org1'' \<noteq> []
   \<and> error (get_total_metrics down_store ''org1'') = Some (PostgrestError ''boom'')
   \<and> getTotalStats down_store (Some ''org1'') =
        (Inl (Error ''boom''), [Rpc ''get_total_metrics'' [(''org_id'', AStr ''org1'')]])
   \<and> error (get_plan_usage_percent_detailed down_store ''org1'') = Some (PostgrestError ''boom'')
   \<and> getPlanUsagePercent down_store (Some ''org1'') =
        (Inl (Error ''boom''),
         [Rpc ''get_plan_usage_percent_detailed'' [(''orgid'', AStr ''org1'')]])"
  using quota_store_failure_raises
          [of "''org1''" down_store "PostgrestError ''boom''" "PostgrestError ''boom''"]
  by (simp add: down_store_def)

text \<open>
  C9, as the specification states it, says that plan-name resolution never raises. With
  the failing store, \<^verbatim>\<open>getCurrentPlanNameOrg\<close> throws.
\<close>

theorem plan_name_never_raises_counterexample:
  "fst (getCurrentPlanNameOrg down_store (Some ''org1'')) = Inl (Error ''boom'')"
  by (simp add: getCurrentPlanNameOrg_def down_store_def)

text \<open>
  C9, amended. \<^verbatim>\<open>getCurrentPlanNameOrg\<close> returns the baseline name \<open>Solo\<close> when the
  org id is absent (or empty), and when the store answers without error and without a
  plan name (null or the empty string); when the store answers with an error, it throws an
  Error that carries the store's message.
\<close>

theorem plan_name_baseline:
  "(falsy_str orgId \<longrightarrow> getCurrentPlanNameOrg c orgId = (Inr ''Solo'', []))
   \<and> (org \<noteq> [] \<and> error (get_current_plan_name_org c org) = None
        \<and> falsy_str (data (get_current_plan_name_org c org)) \<longrightarrow>
        fst (getCurrentPlanNameOrg c (Some org)) = Inr ''Solo'')
   \<and> (org \<noteq> [] \<and> error (get_current_plan_name_org c org) = Some e \<longrightarrow>
        fst (getCurrentPlanNameOrg c (Some org)) = Inl (Error (message e)))"
  by (cases orgId; cases "data (get_current_plan_name_org c org)")
     (simp_all add: getCurrentPlanNameOrg_def DEFAUL_PLAN_NAME_def)

theorem plan_name_baseline_witness:
  "falsy_str None
   \<and> getCurrentPlanNameOrg demo_store None = (Inr ''Solo'', [])
   \<and> ''org2'' \<noteq> [] \<and> error (get_current_plan_name_org demo_store ''org2'') = None
   \<and> falsy_str (data (get_current_plan_name_org demo_store ''org2''))
   \<and> fst (getCurrentPlanNameOrg demo_store (Some ''org2'')) = Inr ''Solo''
   \<and> ''org1'' \<noteq> []
   \<and> error (get_current_plan_name_org down_store ''org1'') = Some (PostgrestError ''boom'')
   \<and> fst (getCurrentPlanNameOrg down_store (Some ''org1'')) = Inl (Error ''boom'')"
  using plan_name_baseline [of None demo_store "''org2''" "PostgrestError ''x''"]
        plan_name_baseline [of None down_store "''org1''" "PostgrestError ''boom''"]
  by (simp add: demo_store_def down_store_def)

section \<open>Segments: what the two arrays hold\<close>

text \<open>The loop appends, entry by entry, what \<open>segment_tags\<close> and \<open>delete_tags\<close> give.\<close>

lemma processSegments_loop_tags:
  "processSegments_loop es segs dels =
     (segs @ concat (map segment_tags es), dels @ concat (map delete_tags es))"
  by (induction es segs dels rule: processSegments_loop.induct) simp_all

lemma segments_processSegments:
  "segments (processSegments s) = concat (map segment_tags (entries s))"
  by (simp add: processSegments_def processSegments_loop_tags)

lemma deleteSegments_processSegments:
  "deleteSegments (processSegments s) = concat (map delete_tags (entries s))"
  by (simp add: processSegments_def processSegments_loop_tags)

lemma in_segments_iff:
  "x \<in> set (segments (processSegments s)) \<longleftrightarrow>
     (capgo s \<and> x = ''capgo'') \<or> (onboarded s \<and> x = ''onboarded'') \<or>
     (trial s \<and> x = ''trial'') \<or> (trial7 s \<and> x = ''trial7'') \<or>
     (trial1 s \<and> x = ''trial1'') \<or> (trial0 s \<and> x = ''trial0'') \<or>
     (paying s \<and> x = ''paying'') \<or> (payingMonthly s \<and> x = ''payingMonthly'') \<or>
     (plan s \<noteq> [] \<and> x = ''plan:'' @ plan s) \<or>
     (overuse s \<and> x = ''overuse'') \<or> (canceled s \<and> x = ''canceled'') \<or>
     (issueSegment s \<and> x = ''issueSegment'')"
  by (auto simp: segments_processSegments entries_def)

lemma in_deleteSegments_iff:
  "x \<in> set (deleteSegments (processSegments s)) \<longleftrightarrow>
     (\<not> capgo s \<and> x = ''capgo'') \<or> (\<not> onboarded s \<and> x = ''onboarded'') \<or>
     (\<not> trial s \<and> x = ''trial'') \<or> (\<not> trial7 s \<and> x = ''trial7'') \<or>
     (\<not> trial1 s \<and> x = ''trial1'') \<or> (\<not> trial0 s \<and> x = ''trial0'') \<or>
     (\<not> paying s \<and> x = ''paying'') \<or> (\<not> payingMonthly s \<and> x = ''payingMonthly'') \<or>
     (\<not> overuse s \<and> x = ''overuse'') \<or> (\<not> canceled s \<and> x = ''canceled'') \<or>
     (\<not> issueSegment s \<and> x = ''issueSegment'')"
  by (auto simp: deleteSegments_processSegments entries_def)

lemma segments_disjoint:
  "set (segments (processSegments s)) \<inter> set (deleteSegments (processSegments s)) = {}"
proof -
  have "\<not> (x \<in> set (segments (processSegments s))
            \<and> x \<in> set (deleteSegments (processSegments s)))" for x
    unfolding in_segments_iff in_deleteSegments_iff by auto
  then show ?thesis by blast
qed

lemma bool_fields_classified:
  "\<forall>(k, v) \<in> set [(''capgo'', capgo s), (''onboarded'', onboarded s), (''trial'', trial s),
         (''trial7'', trial7 s), (''trial1'', trial1 s), (''trial0'', trial0 s),
         (''paying'', paying s), (''payingMonthly'', payingMonthly s),
         (''overuse'', overuse s), (''canceled'', canceled s),
         (''issueSegment'', issueSegment s)].
      (k \<in> set (segments (processSegments s))) = v
      \<and> (k \<in> set (deleteSegments (processSegments s))) = (\<not> v)"
  unfolding in_segments_iff in_deleteSegments_iff
  by simp

text \<open>What \<^verbatim>\<open>customerToSegmentOrg\<close> hands to \<^verbatim>\<open>processSegments\<close>.\<close>

lemma fst_customerToSegmentOrg:
  "fst (customerToSegmentOrg c orgId price_id p) =
     (let s0 = initial_segments (fst (isOnboardedOrg c orgId)) (fst (isCanceledOrg c orgId))
                 price_id p
      in if fst (isOnboardedOrg c orgId)
         then processSegments (classify s0 (fst (isTrialOrg c orgId)) (fst (isPayingOrg c orgId))
                                 (fst (isGoodPlanOrg c orgId)) p)
         else processSegments s0)"
  by (simp add: customerToSegmentOrg_def Let_def case_prod_beta initial_segments_def)

lemma classify_keeps:
  "plan (classify s t pa cu p) = plan s"
  "payingMonthly (classify s t pa cu p) = payingMonthly s"
  by (simp_all add: classify_def)

lemma classify_overuse:
  "classify s t True False (Some row) = s\<lparr>overuse := True, paying := True\<rparr>"
  by (simp add: classify_def)

lemma customerToSegmentOrg_record:
  "\<exists>s. fst (customerToSegmentOrg c orgId price_id p) = processSegments s
       \<and> plan s = (case p of None \<Rightarrow> [] | Some row \<Rightarrow> name row)
       \<and> payingMonthly s = (case p of None \<Rightarrow> False | Some row \<Rightarrow> price_m_id row = price_id)"
proof -
  let ?s0 = "initial_segments (fst (isOnboardedOrg c orgId)) (fst (isCanceledOrg c orgId))
               price_id p"
  let ?s = "if fst (isOnboardedOrg c orgId)
            then classify ?s0 (fst (isTrialOrg c orgId)) (fst (isPayingOrg c orgId))
                   (fst (isGoodPlanOrg c orgId)) p
            else ?s0"
  have "fst (customerToSegmentOrg c orgId price_id p) = processSegments ?s"
    by (simp add: fst_customerToSegmentOrg Let_def)
  moreover have "plan ?s = (case p of None \<Rightarrow> [] | Some row \<Rightarrow> name row)"
    by (simp add: classify_keeps initial_segments_def)
  moreover have "payingMonthly ?s =
      (case p of None \<Rightarrow> False | Some row \<Rightarrow> price_m_id row = price_id)"
    by (simp add: classify_keeps initial_segments_def)
  ultimately show ?thesis by blast
qed

text \<open>
  C3, as the specification states it, promises \<open>overuse\<close> and \<open>paying\<close> for every
  onboarded, paying organization that cannot use more. The branch also asks for a plan
  row: without one the organization lands in \<open>issueSegment\<close>.
\<close>

theorem overuse_without_plan_counterexample:
  "fst (isOnboardedOrg demo_store ''org1'') \<and> fst (isPayingOrg demo_store ''org1'')
   \<and> \<not> fst (isGoodPlanOrg demo_store ''org1'')
   \<and> ''overuse'' \<notin> set (segments (fst (customerToSegmentOrg demo_store ''org1'' ''price_1'' None)))
   \<and> ''paying'' \<notin> set (segments (fst (customerToSegmentOrg demo_store ''org1'' ''price_1'' None)))
   \<and> ''issueSegment'' \<in> set (segments (fst (customerToSegmentOrg demo_store ''org1'' ''price_1'' None)))
   \<and> ''issueSegment''
        \<notin> set (deleteSegments (fst (customerToSegmentOrg demo_store ''org1'' ''price_1'' None)))"
  by (simp add: fst_customerToSegmentOrg in_segments_iff in_deleteSegments_iff classify_def
        initial_segments_def isOnboardedOrg_def isPayingOrg_def isGoodPlanOrg_def isTrialOrg_def
        isCanceledOrg_def throwOnError_def demo_store_def)

text \<open>
  C3, amended. For every organization that is onboarded and paying and cannot use more,
  and for which a plan row is given, \<open>segments\<close> contains \<open>overuse\<close> and \<open>paying\<close>, and
  \<open>deleteSegments\<close> contains \<open>trial\<close>, \<open>trial7\<close>, \<open>trial1\<close>, \<open>trial0\<close> and
  \<open>issueSegment\<close>.
\<close>

theorem overuse_paying_with_plan:
  assumes "fst (isOnboardedOrg c orgId)" and "fst (isPayingOrg c orgId)"
    and "\<not> fst (isGoodPlanOrg c orgId)" and "p = Some row"
  shows "{''overuse'', ''paying''}
           \<subseteq> set (segments (fst (customerToSegmentOrg c orgId price_id p)))
       \<and> {''trial'', ''trial7'', ''trial1'', ''trial0'', ''issueSegment''}
           \<subseteq> set (deleteSegments (fst (customerToSegmentOrg c orgId price_id p)))"
  using assms
  by (simp add: fst_customerToSegmentOrg classify_overuse in_segments_iff in_deleteSegments_iff
        initial_segments_def)

theorem overuse_paying_with_plan_witness:
  "fst (isOnboardedOrg demo_store ''org1'') \<and> fst (isPayingOrg demo_store ''org1'')
   \<and> \<not> fst (isGoodPlanOrg demo_store ''org1'')
   \<and> {''overuse'', ''paying''}
        \<subseteq> set (segments
                 (fst (customerToSegmentOrg demo_store ''org1'' ''price_1'' (Some demo_plan))))
   \<and> {''trial'', ''trial7'', ''trial1'', ''trial0'', ''issueSegment''}
        \<subseteq> set (deleteSegments
                 (fst (customerToSegmentOrg demo_store ''org1'' ''price_1'' (Some demo_plan))))"
  using overuse_paying_with_plan
          [of demo_store "''org1''" "Some demo_plan" demo_plan "''price_1''"]
  by (simp add: isOnboardedOrg_def isPayingOrg_def isGoodPlanOrg_def throwOnError_def
        demo_store_def)

text \<open>
  C6. For every object handed to \<^verbatim>\<open>processSegments\<close>, the two arrays have no
  element in common, and each of the eleven boolean fields of the object (\<open>capgo\<close>,
  \<open>onboarded\<close>, \<open>trial\<close>, \<open>trial7\<close>, \<open>trial1\<close>, \<open>trial0\<close>, \<open>paying\<close>,
  \<open>payingMonthly\<close>, \<open>overuse\<close>, \<open>canceled\<close>, \<open>issueSegment\<close>) appears under its bare
  key in exactly one of them: in \<open>segments\<close> when it is true, in \<open>deleteSegments\<close> when
  it is false. The same holds of the two arrays that \<^verbatim>\<open>customerToSegmentOrg\<close>
  returns: they are disjoint, and each of the eleven keys is in exactly one of them.
\<close>

theorem segments_partition:
  "set (segments (processSegments s)) \<inter> set (deleteSegments (processSegments s)) = {}
   \<and> (\<forall>(k, v) \<in> set [(''capgo'', capgo s), (''onboarded'', onboarded s),
           (''trial'', trial s), (''trial7'', trial7 s), (''trial1'', trial1 s),
           (''trial0'', trial0 s), (''paying'', paying s),
           (''payingMonthly'', payingMonthly s), (''overuse'', overuse s),
           (''canceled'', canceled s), (''issueSegment'', issueSegment s)].
         (k \<in> set (segments (processSegments s))) = v
         \<and> (k \<in> set (deleteSegments (processSegments s))) = (\<not> v))
   \<and> set (segments (fst (customerToSegmentOrg c orgId price_id p)))
       \<inter> set (deleteSegments (fst (customerToSegmentOrg c orgId price_id p))) = {}
   \<and> (\<forall>k \<in> set [''capgo'', ''onboarded'', ''trial'', ''trial7'', ''trial1'', ''trial0'',
           ''paying'', ''payingMonthly'', ''overuse'', ''canceled'', ''issueSegment''].
         (k \<in> set (segments (fst (customerToSegmentOrg c orgId price_id p))))
           = (k \<notin> set (deleteSegments (fst (customerToSegmentOrg c orgId price_id p)))))"
proof -
  obtain s' where r: "fst (customerToSegmentOrg c orgId price_id p) = processSegments s'"
    using customerToSegmentOrg_record by blast
  have "\<forall>k \<in> set [''capgo'', ''onboarded'', ''trial'', ''trial7'', ''trial1'', ''trial0'',
           ''paying'', ''payingMonthly'', ''overuse'', ''canceled'', ''issueSegment''].
         (k \<in> set (segments (processSegments s')))
           = (k \<notin> set (deleteSegments (processSegments s')))"
    using bool_fields_classified [of s'] by simp
  then show ?thesis
    unfolding r
    using segments_disjoint [of s] segments_disjoint [of s'] bool_fields_classified [of s]
    by blast
qed

theorem segments_partition_witness:
  "capgo demo_segments
   \<and> ''capgo'' \<in> set (segments (processSegments demo_segments))
   \<and> ''capgo'' \<notin> set (deleteSegments (processSegments demo_segments))
   \<and> \<not> trial demo_segments
   \<and> ''trial'' \<notin> set (segments (processSegments demo_segments))
   \<and> ''trial'' \<in> set (deleteSegments (processSegments demo_segments))
   \<and> ''overuse''
       \<in> set (segments
                (fst (customerToSegmentOrg demo_store ''org1'' ''price_1'' (Some demo_plan))))
   \<and> ''overuse''
       \<notin> set (deleteSegments
                (fst (customerToSegmentOrg demo_store ''org1'' ''price_1'' (Some demo_plan))))"
  using segments_partition [of demo_segments demo_store "''org1''" "''price_1''" "Some demo_plan"]
  by (simp add: demo_segments_def initial_segments_def fst_customerToSegmentOrg in_segments_iff
        classify_def isOnboardedOrg_def isPayingOrg_def isGoodPlanOrg_def isTrialOrg_def
        isCanceledOrg_def throwOnError_def demo_store_def)

text \<open>
  C8, as the specification states it, treats \<^verbatim>\<open>payingMonthly\<close> as a string that
  becomes a \<open>key:value\<close> tag or is left out. The field holds a boolean: its bare key
  is in \<open>deleteSegments\<close> when no plan row is given, and in \<open>segments\<close> when the plan's
  monthly price is the customer's price.
\<close>

theorem payingMonthly_bare_key_counterexample:
  "''payingMonthly''
     \<in> set (deleteSegments (fst (customerToSegmentOrg demo_store ''org1'' ''price_1'' None)))
   \<and> ''payingMonthly''
     \<in> set (segments
              (fst (customerToSegmentOrg demo_store ''org1'' ''price_1'' (Some demo_plan))))"
  by (simp add: demo_plan_def fst_customerToSegmentOrg in_deleteSegments_iff in_segments_iff
        classify_def initial_segments_def isOnboardedOrg_def isPayingOrg_def isGoodPlanOrg_def
        isTrialOrg_def isCanceledOrg_def throwOnError_def demo_store_def)

text \<open>
  C8, amended. The field \<^verbatim>\<open>plan\<close> becomes the tag \<open>plan:<name>\<close> in \<open>segments\<close>
  when a plan row with a non-empty name is given, and only then; nothing that begins with
  \<open>plan\<close> is ever in \<open>deleteSegments\<close>, so an empty plan name is left out of both
  arrays. The field \<^verbatim>\<open>payingMonthly\<close> is a boolean flag: its bare key is in
  \<open>segments\<close> when the plan's monthly price id equals the given price id, and in
  \<open>deleteSegments\<close> otherwise.
\<close>

theorem plan_tag_and_payingMonthly_flag:
  "(\<forall>row. p = Some row \<and> name row \<noteq> [] \<longrightarrow>
       ''plan:'' @ name row \<in> set (segments (fst (customerToSegmentOrg c orgId price_id p))))
   \<and> (\<forall>x \<in> set (segments (fst (customerToSegmentOrg c orgId price_id p))).
        prefix ''plan'' x \<longrightarrow>
        (\<exists>row. p = Some row \<and> name row \<noteq> [] \<and> x = ''plan:'' @ name row))
   \<and> (\<forall>x \<in> set (deleteSegments (fst (customerToSegmentOrg c orgId price_id p))).
        \<not> prefix ''plan'' x)
   \<and> (''payingMonthly'' \<in> set (segments (fst (customerToSegmentOrg c orgId price_id p))))
        = (\<exists>row. p = Some row \<and> price_m_id row = price_id)
   \<and> (''payingMonthly'' \<in> set (deleteSegments (fst (customerToSegmentOrg c orgId price_id p))))
        = (\<not> (\<exists>row. p = Some row \<and> price_m_id row = price_id))"
proof -
  obtain s where r: "fst (customerToSegmentOrg c orgId price_id p) = processSegments s"
    and pl: "plan s = (case p of None \<Rightarrow> [] | Some row \<Rightarrow> name row)"
    and pm: "payingMonthly s =
               (case p of None \<Rightarrow> False | Some row \<Rightarrow> price_m_id row = price_id)"
    using customerToSegmentOrg_record by blast
  have a: "\<forall>row. p = Some row \<and> name row \<noteq> [] \<longrightarrow>
             ''plan:'' @ name row \<in> set (segments (processSegments s))"
    by (simp add: in_segments_iff pl)
  have b: "\<forall>x \<in> set (segments (processSegments s)).
             prefix ''plan'' x \<longrightarrow>
             (\<exists>row. p = Some row \<and> name row \<noteq> [] \<and> x = ''plan:'' @ name row)"
    by (cases p) (auto simp: in_segments_iff pl)
  have c: "\<forall>x \<in> set (deleteSegments (processSegments s)). \<not> prefix ''plan'' x"
    by (auto simp: in_deleteSegments_iff)
  have d: "(''payingMonthly'' \<in> set (segments (processSegments s)))
             = (\<exists>row. p = Some row \<and> price_m_id row = price_id)"
    by (cases p) (simp_all add: in_segments_iff pm)
  have e: "(''payingMonthly'' \<in> set (deleteSegments (processSegments s)))
             = (\<not> (\<exists>row. p = Some row \<and> price_m_id row = price_id))"
    by (cases p) (simp_all add: in_deleteSegments_iff pm)
  show ?thesis unfolding r using a b c d e by blast
qed

theorem plan_tag_and_payingMonthly_flag_witness:
  "name demo_plan \<noteq> []
   \<and> ''plan:Maker''
       \<in> set (segments
                (fst (customerToSegmentOrg demo_store ''org1'' ''price_1'' (Some demo_plan))))
   \<and> prefix ''plan'' ''plan:Maker''
   \<and> ''trial''
       \<in> set (deleteSegments
                (fst (customerToSegmentOrg demo_store ''org1'' ''price_1'' (Some demo_plan))))
   \<and> \<not> prefix ''plan'' ''trial''
   \<and> ''payingMonthly''
       \<in> set (segments
                (fst (customerToSegmentOrg demo_store ''org1'' ''price_1'' (Some demo_plan))))"
  using plan_tag_and_payingMonthly_flag [of "Some demo_plan" demo_store "''org1''" "''price_1''"]
  by (simp add: demo_plan_def fst_customerToSegmentOrg in_deleteSegments_iff classify_def
        initial_segments_def isOnboardedOrg_def isPayingOrg_def isGoodPlanOrg_def isTrialOrg_def
        isCanceledOrg_def throwOnError_def demo_store_def)

section \<open>The download-link handler: its gates\<close>

lemma split_Bearer_tok: "at_index (split_js ''Bearer tok'' ''Bearer '') (Suc 0) = Some ''tok''"
  by (simp add: split_js_def at_index_def)

lemma split_Bearer_bad: "at_index (split_js ''Bearer bad'' ''Bearer '') (Suc 0) = Some ''bad''"
  by (simp add: split_js_def at_index_def)

text \<open>With the store in which everything succeeds, the handler answers 200 with the URL.\<close>

lemma download_link_demo:
  "fst (download_link demo_store demo_request) = json (UrlBody ''https://signed.example/b'') 200"
  by (simp add: download_link_def download_link_try_def demo_request_def demo_body_def
        split_Bearer_tok demo_store_def hasAppRight_def)

text \<open>
  C1. The claim: once the token validates and the read right is granted, a failed bundle
  lookup or an unresolved owning organization is answered with status 500 and
  \<open>Error unknow\<close>. The handler reads \<^verbatim>\<open>(bundle?.owner_org as any).created_by\<close> before
  it tests \<^verbatim>\<open>getBundleError\<close>: when no bundle is found (bundle 8), and when the bundle
  has no owning organization (bundle 9), that read throws, and the \<^verbatim>\<open>catch\<close> answers
  500 with \<open>Cannot get download link\<close> instead.
\<close>

theorem missing_bundle_not_error_unknow:
  "download_link demo_store missing_bundle_request =
     (json (StatusError ''Cannot get download link'' ''{}'') 500,
      [AuthGetUser (Some ''tok''),
       Rpc ''has_app_right_userid''
         [(''appid'', AStr ''app123''), (''right'', AStr ''read''), (''userid'', AStr ''u1'')],
       SelectSingle ''app_versions'' ''*, owner_org ( created_by )''
         [(''app_id'', AStr ''app123''), (''id'', ANum 8)]])
   \<and> fst (download_link demo_store orphan_bundle_request) =
       json (StatusError ''Cannot get download link'' ''{}'') 500"
  by (simp add: download_link_def download_link_try_def missing_bundle_request_def
        orphan_bundle_request_def demo_request_def demo_body_def split_Bearer_tok demo_store_def
        hasAppRight_def JSON_stringify_def)

text \<open>
  C4, as the specification states it, promises 400 with \<open>not authorize\<close> for every request
  whose token fails validation, and 400 with the no-access status for every validated
  principal without the read right. The handler reads the body first: a request whose
  body is not JSON is answered 500 with \<open>Cannot get download link\<close>, whatever its token,
  and the identity provider is never asked. And a request whose body is the JSON value
  \<^verbatim>\<open>null\<close> passes the first two gates with a valid token, throws at
  \<^verbatim>\<open>body.app_id\<close> before the right is looked up, and is answered 500 as well.
\<close>

theorem malformed_body_counterexample:
  "authorization malformed_request = Some ''Bearer bad''
   \<and> error (auth_getUser demo_store (at_index (split_js ''Bearer bad'' ''Bearer '') 1))
       = Some (PostgrestError ''invalid JWT'')
   \<and> download_link demo_store malformed_request =
       (json (StatusError ''Cannot get download link'' ''{}'') 500, [])
   \<and> req_json null_body_request = JsonNull
   \<and> authorization null_body_request = Some ''Bearer tok''
   \<and> auth_getUser demo_store (at_index (split_js ''Bearer tok'' ''Bearer '') 1) =
       \<lparr>data = Some (AuthData (Some (User ''u1''))), error = None\<rparr>
   \<and> download_link demo_store null_body_request =
       (json (StatusError ''Cannot get download link'' ''{}'') 500,
        [AuthGetUser (Some ''tok'')])"
  by (simp add: download_link_def download_link_try_def malformed_request_def
        null_body_request_def split_Bearer_bad split_Bearer_tok demo_store_def
        JSON_stringify_def)

text \<open>
  C4, amended. For every request whose body is a JSON object with the fields that the
  interface \<^verbatim>\<open>DataDownload\<close> declares, the stages are gated in order.
  Without an Authorization header (or with an empty one) the answer is 400 with
  \<open>Cannot find authorization\<close>, and nothing is sent to the store. When the identity
  provider answers the token with an error, with no data or with no user, the answer is
  400 with \<open>not authorize\<close>. When the token validates to a user and \<^verbatim>\<open>hasAppRight\<close>
  for \<open>read\<close> on the body's \<^verbatim>\<open>app_id\<close> is false or null, the answer is 400 with the
  no-access status and that same \<^verbatim>\<open>app_id\<close>.
\<close>

theorem gates_in_order:
  assumes "req_json req = JsonObject body"
  shows "(falsy_str (authorization req) \<longrightarrow>
            download_link c req = (json (Status ''Cannot find authorization'') 400, []))
       \<and> (\<forall>hdr r. authorization req = Some hdr \<and> hdr \<noteq> []
              \<and> r = auth_getUser c (at_index (split_js hdr ''Bearer '') 1)
              \<and> (error r \<noteq> None \<or> data r = None \<or> (\<exists>a. data r = Some a \<and> user a = None)) \<longrightarrow>
            fst (download_link c req) = json (Status ''not authorize'') 400)
       \<and> (\<forall>hdr r a u ok. authorization req = Some hdr \<and> hdr \<noteq> []
              \<and> r = auth_getUser c (at_index (split_js hdr ''Bearer '') 1)
              \<and> error r = None \<and> data r = Some a \<and> user a = Some u
              \<and> fst (hasAppRight c (Some (app_id body)) (user_uid u) ''read'') = Inr ok
              \<and> \<not> or_false ok \<longrightarrow>
            fst (download_link c req) = json (StatusApp no_access (app_id body)) 400)"
  using assms
  by (auto simp: download_link_def download_link_try_def Let_def
           split: option.splits prod.splits sum.splits)

theorem gates_in_order_witness:
  "req_json no_header_request = JsonObject demo_body
   \<and> falsy_str (authorization no_header_request)
   \<and> download_link demo_store no_header_request =
       (json (Status ''Cannot find authorization'') 400, [])
   \<and> req_json bad_token_request = JsonObject demo_body
   \<and> authorization bad_token_request = Some ''Bearer bad''
   \<and> error (auth_getUser demo_store (at_index (split_js ''Bearer bad'' ''Bearer '') 1)) \<noteq> None
   \<and> fst (download_link demo_store bad_token_request) = json (Status ''not authorize'') 400
   \<and> req_json no_right_request = JsonObject (demo_body\<lparr>app_id := ''app9''\<rparr>)
   \<and> authorization no_right_request = Some ''Bearer tok''
   \<and> auth_getUser demo_store (at_index (split_js ''Bearer tok'' ''Bearer '') 1) =
       \<lparr>data = Some (AuthData (Some (User ''u1''))), error = None\<rparr>
   \<and> fst (hasAppRight demo_store (Some ''app9'') ''u1'' ''read'') = Inr (Some False)
   \<and> fst (download_link demo_store no_right_request) = json (StatusApp no_access ''app9'') 400"
  using gates_in_order [of no_header_request demo_body demo_store]
        gates_in_order [of bad_token_request demo_body demo_store]
        gates_in_order [of no_right_request "demo_body\<lparr>app_id := ''app9''\<rparr>" demo_store]
  by (simp add: no_header_request_def bad_token_request_def no_right_request_def
        demo_request_def demo_body_def split_Bearer_tok split_Bearer_bad demo_store_def
        hasAppRight_def)

text \<open>
  C10. The answer of the handler, and the calls it sends to the store, do not depend on
  the optional \<^verbatim>\<open>user_id\<close> of the body: two requests that differ in nothing else get
  the same answer. And when the token validates to a user, the calls of the handler begin
  with the identity check followed by the calls of \<^verbatim>\<open>hasAppRight\<close> for the id of that
  user: the right check is made for the principal of the token.
\<close>

theorem user_id_irrelevant:
  "download_link c (req\<lparr>req_json := JsonObject (body\<lparr>user_id := u1\<rparr>)\<rparr>)
     = download_link c (req\<lparr>req_json := JsonObject (body\<lparr>user_id := u2\<rparr>)\<rparr>)
   \<and> (\<forall>hdr a u. req_json req = JsonObject body \<and> authorization req = Some hdr \<and> hdr \<noteq> []
          \<and> error (auth_getUser c (at_index (split_js hdr ''Bearer '') 1)) = None
          \<and> data (auth_getUser c (at_index (split_js hdr ''Bearer '') 1)) = Some a
          \<and> user a = Some u \<longrightarrow>
        prefix (AuthGetUser (at_index (split_js hdr ''Bearer '') 1)
                  # snd (hasAppRight c (Some (app_id body)) (user_uid u) ''read''))
          (snd (download_link c req)))"
proof -
  have "download_link c (req\<lparr>req_json := JsonObject (body\<lparr>user_id := u1\<rparr>)\<rparr>)
     = download_link c (req\<lparr>req_json := JsonObject (body\<lparr>user_id := u2\<rparr>)\<rparr>)"
    by (simp add: download_link_def download_link_try_def Let_def
        cong: option.case_cong prod.case_cong sum.case_cong if_cong)
  moreover have "prefix (AuthGetUser (at_index (split_js hdr ''Bearer '') 1)
                  # snd (hasAppRight c (Some (app_id body)) (user_uid u) ''read''))
          (snd (download_link c req))"
    if "req_json req = JsonObject body" "authorization req = Some hdr" "hdr \<noteq> []"
       "error (auth_getUser c (at_index (split_js hdr ''Bearer '') 1)) = None"
       "data (auth_getUser c (at_index (split_js hdr ''Bearer '') 1)) = Some a"
       "user a = Some u" for hdr a u
    using that
    by (auto simp: download_link_def download_link_try_def Let_def
           split: option.splits prod.splits sum.splits)
  ultimately show ?thesis by blast
qed

theorem user_id_irrelevant_witness:
  "req_json demo_request = JsonObject demo_body \<and> authorization demo_request = Some ''Bearer tok''
   \<and> auth_getUser demo_store (at_index (split_js ''Bearer tok'' ''Bearer '') 1) =
       \<lparr>data = Some (AuthData (Some (User ''u1''))), error = None\<rparr>
   \<and> prefix [AuthGetUser (Some ''tok''),
              Rpc ''has_app_right_userid''
                [(''appid'', AStr ''app123''), (''right'', AStr ''read''),
                 (''userid'', AStr ''u1'')]]
        (snd (download_link demo_store demo_request))"
  using user_id_irrelevant [where c = demo_store and req = demo_request and body = demo_body]
  by (simp add: demo_request_def demo_body_def split_Bearer_tok demo_store_def hasAppRight_def)

end
